theory Spec2Isabelle
  imports Complex_Main "HOL-Library.AList" "HOL-Library.Sublist"
begin

section \<open>Data model\<close>

text \<open>
  JSON values as the gateway handles them: tool arguments, backend results and notification
  payloads. Numbers are JavaScript numbers, read here as reals (rounding of doubles is not
  modelled). An object keeps its fields in order; a field that is \<open>undefined\<close> is absent.
\<close>

datatype json =
    JNull
  | JBool bool
  | JNum real
  | JStr string
  | JArr "json list"
  | JObj "(string \<times> json) list"

type_synonym args = "(string \<times> json) list"

text \<open>JavaScript truthiness of a value; \<open>None\<close> is \<open>undefined\<close>.\<close>

fun truthy :: "json \<Rightarrow> bool" where
  "truthy JNull = False"
| "truthy (JBool b) = b"
| "truthy (JNum n) = (n \<noteq> 0)"
| "truthy (JStr s) = (s \<noteq> [])"
| "truthy (JArr xs) = True"
| "truthy (JObj kvs) = True"

definition truthy_value :: "json option \<Rightarrow> json option" where
  "truthy_value v = (case v of None \<Rightarrow> None | Some j \<Rightarrow> if truthy j then Some j else None)"

text \<open>An object literal: fields whose value is \<open>undefined\<close> do not appear in the payload.\<close>

fun object_fields :: "(string \<times> json option) list \<Rightarrow> (string \<times> json) list" where
  "object_fields [] = []"
| "object_fields ((k, None) # kvs) = object_fields kvs"
| "object_fields ((k, Some v) # kvs) = (k, v) # object_fields kvs"

text \<open>
  Errors. \<open>McpError\<close> is the SDK's error class, built from a code and a text;
  \<open>JsError\<close> is any other thrown \<open>Error\<close> with its message (a transport whose socket
  is gone).
\<close>

datatype ErrorCode = InternalError | InvalidRequest

datatype error = McpError ErrorCode string | JsError string

text \<open>
  What the spawned Python process does: it closes with an exit code (\<open>None\<close> when it was
  killed by a signal), having written \<open>stdout\<close> and \<open>stderr\<close>, or it cannot be started and
  the \<open>error\<close> event carries a message.
\<close>

datatype proc_result =
    Closed "int option" string string
  | SpawnFailed string

text \<open>
  The environment of one request: the backend process as a function of the tool name and the
  arguments it is given, \<open>JSON.parse\<close> (\<open>None\<close> when it throws), and the readings of the clock
  and of the process taken while the request runs.
\<close>

record env =
  spawn :: "string \<Rightarrow> args \<Rightarrow> proc_result"
  JSON_parse :: "string \<Rightarrow> json option"
  McpError_message :: "ErrorCode \<Rightarrow> string \<Rightarrow> string"
  Date_now :: nat
  toISOString :: string
  uptime :: real
  memoryUsage :: json

text \<open>
  What \<open>error.message\<close> reads. For an \<open>McpError\<close> the SDK's constructor decides it
  from the code and the text; that class is not part of the repository, so the environment
  supplies it.
\<close>

fun error_message :: "env \<Rightarrow> error \<Rightarrow> string" where
  "error_message e (McpError c m) = McpError_message e c m"
| "error_message e (JsError m) = m"

text \<open>A notification message as handed to a transport's \<open>send\<close>.\<close>

record notification =
  jsonrpc :: string
  method_name :: string
  params :: "(string \<times> json) list"

text \<open>
  An open SSE connection. Its \<open>send\<close> either resolves or throws; \<open>send_throws\<close> is the
  error it throws, if any, and stays the same while one request runs.
\<close>

record transport =
  send_throws :: "error option"

text \<open>
  What a request does to the outside, in order: a message accepted by the connection with the
  given session id, a \<open>send\<close> that threw, a backend process started.
\<close>

datatype event =
    Delivered string notification
  | Rejected string notification error
  | Spawned string args

text \<open>
  The server's registries. The two JavaScript \<open>Map\<close>s are association lists in insertion
  order (\<open>set\<close> on a present key replaces its value where it stands), the \<open>Set\<close> of
  subscribed URIs is a list without repetitions. A progress token is kept as the value the
  request carried, a string in every request that follows the tools' input schema.
\<close>

record server =
  sseTransports :: "(string \<times> transport) list"
  subscribers :: "string list"
  progressTokens :: "(json \<times> string) list"
  lastResourceUpdate :: nat

section \<open>Backend bridge\<close>

text \<open>\<open>callPythonHandler\<close>, the same in \<open>index.ts\<close> and \<open>enhanced_index.ts\<close>.\<close>

definition callPythonHandler :: "env \<Rightarrow> string \<Rightarrow> args \<Rightarrow> error + json" where
  "callPythonHandler e toolName a =
     (case spawn e toolName a of
        SpawnFailed m \<Rightarrow> Inl (McpError InternalError m)
      | Closed code out err \<Rightarrow>
          if code \<noteq> Some 0 then
            Inl (McpError InternalError (if err \<noteq> [] then err else ''Python process failed''))
          else
            (case JSON_parse e out of
               Some result \<Rightarrow> Inr result
             | None \<Rightarrow> Inl (McpError InternalError ''Invalid JSON response from Python'')))"

section \<open>Notification dispatcher of \<open>enhanced_index.ts\<close>\<close>

text \<open>
  One \<open>transport.send\<close> wrapped in \<open>try\<close>/\<open>catch\<close>: the failure is logged and the loop
  goes on.
\<close>

definition try_send :: "string \<times> transport \<Rightarrow> notification \<Rightarrow> event" where
  "try_send c n =
     (case send_throws (snd c) of
        None \<Rightarrow> Delivered (fst c) n
      | Some err \<Rightarrow> Rejected (fst c) n err)"

text \<open>
  A loop of bare \<open>await transport.send(...)\<close> over the connections: the first \<open>send\<close>
  that throws ends the loop and the error leaves the enclosing function.
\<close>

fun send_each :: "(string \<times> transport) list \<Rightarrow> notification \<Rightarrow> event list \<times> error option" where
  "send_each [] n = ([], None)"
| "send_each (c # cs) n =
     (case send_throws (snd c) of
        Some err \<Rightarrow> ([Rejected (fst c) n err], Some err)
      | None \<Rightarrow> (case send_each cs n of (evs, r) \<Rightarrow> (Delivered (fst c) n # evs, r)))"

definition progress_notification :: "env \<Rightarrow> json \<Rightarrow> real \<Rightarrow> string \<Rightarrow> notification" where
  "progress_notification e progressToken progress message =
     \<lparr> jsonrpc = ''2.0'', method_name = ''notifications/progress'',
       params = [(''progressToken'', progressToken), (''progress'', JNum progress),
                 (''message'', JStr message), (''timestamp'', JStr (toISOString e))] \<rparr>"

definition sendProgressNotification ::
    "env \<Rightarrow> server \<Rightarrow> json \<Rightarrow> real \<Rightarrow> string \<Rightarrow> event list" where
  "sendProgressNotification e s progressToken progress message =
     map (\<lambda>c. try_send c (progress_notification e progressToken progress message))
       (sseTransports s)"

text \<open>The guard \<open>if (progressToken) await this.sendProgressNotification(...)\<close>.\<close>

definition progress_if ::
    "env \<Rightarrow> server \<Rightarrow> json option \<Rightarrow> real \<Rightarrow> string \<Rightarrow> event list" where
  "progress_if e s progressToken progress message =
     (case progressToken of
        None \<Rightarrow> []
      | Some t \<Rightarrow> sendProgressNotification e s t progress message)"

definition getResourceData :: "env \<Rightarrow> server \<Rightarrow> string \<Rightarrow> event list \<times> json" where
  "getResourceData e s uri =
     (if uri = ''autogen://system/metrics'' then
        ([], JObj [(''timestamp'', JStr (toISOString e)), (''uptime'', JNum (uptime e)),
                   (''memory'', memoryUsage e),
                   (''sseConnections'', JNum (real (length (sseTransports s)))),
                   (''activeSubscriptions'', JNum (real (length (subscribers s)))),
                   (''progressTokens'', JNum (real (length (progressTokens s))))])
      else
        ([Spawned ''get_resource'' [(''uri'', JStr uri)]],
         (case callPythonHandler e ''get_resource'' [(''uri'', JStr uri)] of
            Inr result \<Rightarrow> result
          | Inl err \<Rightarrow> JObj [(''error'', JStr (error_message e err))])))"

definition resource_notification :: "env \<Rightarrow> string \<Rightarrow> json \<Rightarrow> notification" where
  "resource_notification e uri d =
     \<lparr> jsonrpc = ''2.0'', method_name = ''notifications/resource_updated'',
       params = [(''uri'', JStr uri), (''data'', d), (''timestamp'', JStr (toISOString e))] \<rparr>"

text \<open>
  \<open>notifyResourceUpdate\<close>. Only strings are ever added to \<open>subscribers\<close>, so \<open>has(uri)\<close>
  is false for a \<open>uri\<close> that is absent or not a string. The payload \<open>data || await
  this.getResourceData(uri)\<close> is computed anew for each connection.
\<close>

definition notifyResourceUpdate ::
    "env \<Rightarrow> server \<Rightarrow> json option \<Rightarrow> json option \<Rightarrow> event list" where
  "notifyResourceUpdate e s uri d =
     (case uri of
        Some (JStr u) \<Rightarrow>
          if u \<in> set (subscribers s) then
            concat (map (\<lambda>c.
              (case truthy_value d of
                 Some v \<Rightarrow> [try_send c (resource_notification e u v)]
               | None \<Rightarrow> (case getResourceData e s u of
                            (evs, v) \<Rightarrow> evs @ [try_send c (resource_notification e u v)])))
              (sseTransports s))
          else []
      | _ \<Rightarrow> [])"

section \<open>Tool invocation of \<open>enhanced_index.ts\<close>\<close>

definition streaming_notification :: "json option \<Rightarrow> json \<Rightarrow> notification" where
  "streaming_notification progressToken result =
     \<lparr> jsonrpc = ''2.0'', method_name = ''notifications/progress'',
       params = [(''progressToken'', (case progressToken of Some t \<Rightarrow> t | None \<Rightarrow> JStr ''streaming'')),
                 (''progress'', JNum 75), (''message'', JStr ''Streaming updates...''),
                 (''data'', result)] \<rparr>"

text \<open>
  \<open>handleStreamingTool\<close>; \<open>progressToken\<close> is \<open>None\<close> when the caller's token is
  \<open>undefined\<close> or falsy.
\<close>

definition handleStreamingTool ::
    "env \<Rightarrow> server \<Rightarrow> string \<Rightarrow> args \<Rightarrow> json option \<Rightarrow> (error + json) \<times> event list" where
  "handleStreamingTool e s toolName a progressToken =
     (let ev1 = progress_if e s progressToken 25 ''Initializing streaming...'';
          ev2 = [Spawned toolName a]
      in case callPythonHandler e toolName a of
           Inl err \<Rightarrow> (Inl err, ev1 @ ev2)
         | Inr result \<Rightarrow>
             (case (if truthy_value (map_of a ''streaming'') \<noteq> None \<and> length (sseTransports s) > 0
                    then send_each (sseTransports s) (streaming_notification progressToken result)
                    else ([], None)) of
                (ev3, Some err) \<Rightarrow> (Inl err, ev1 @ ev2 @ ev3)
              | (ev3, None) \<Rightarrow>
                  (Inr result,
                   ev1 @ ev2 @ ev3 @ progress_if e s progressToken 100 ''Streaming completed'')))"

definition handleResourceBroadcast :: "env \<Rightarrow> server \<Rightarrow> args \<Rightarrow> json \<times> server \<times> event list" where
  "handleResourceBroadcast e s a =
     (let uri = map_of a ''uri''; change_type = map_of a ''change_type''; d = map_of a ''data'';
          evs = notifyResourceUpdate e s uri d;
          s' = s\<lparr> lastResourceUpdate := Date_now e \<rparr>
      in (JObj (object_fields
                 [(''success'', Some (JBool True)), (''uri'', uri), (''change_type'', change_type),
                  (''subscribers'', Some (JNum (real (length (subscribers s'))))),
                  (''timestamp'', Some (JStr (toISOString e)))]),
          s', evs))"

text \<open>
  The two writes to the progress tracker: \<open>this.progressTokens.set(progressToken, toolName)\<close>
  and \<open>this.progressTokens.delete(progressToken)\<close>, both under \<open>if (progressToken)\<close>.
\<close>

definition track_token :: "server \<Rightarrow> json option \<Rightarrow> string \<Rightarrow> server" where
  "track_token s progressToken toolName =
     (case progressToken of
        None \<Rightarrow> s
      | Some t \<Rightarrow> s\<lparr> progressTokens := AList.update t toolName (progressTokens s) \<rparr>)"

definition untrack_token :: "server \<Rightarrow> json option \<Rightarrow> server" where
  "untrack_token s progressToken =
     (case progressToken of
        None \<Rightarrow> s
      | Some t \<Rightarrow> s\<lparr> progressTokens := AList.delete t (progressTokens s) \<rparr>)"

text \<open>
  A request is followed from its arrival to its answer with no other request running in
  between: what other requests do to the registries while this one awaits is outside the
  model.
\<close>

text \<open>
  The body of the \<open>try\<close> block of the \<open>CallToolRequestSchema\<close> handler: the result or the
  error it ends with, the registries as it leaves them, and what it did.
\<close>

definition callTool_try ::
    "env \<Rightarrow> server \<Rightarrow> string \<Rightarrow> args \<Rightarrow> (error + json) \<times> server \<times> event list" where
  "callTool_try e s toolName a =
     (let progressToken = truthy_value (map_of a ''progress_token'');
          s1 = track_token s progressToken toolName;
          ev0 = progress_if e s1 progressToken 0 (''Starting '' @ toolName @ ''...'')
      in if toolName = ''create_streaming_workflow'' \<or> toolName = ''start_streaming_chat'' then
           (case handleStreamingTool e s1 toolName a progressToken of
              (r, evs) \<Rightarrow> (r, s1, ev0 @ evs))
         else if toolName = ''broadcast_resource_update'' then
           (case handleResourceBroadcast e s1 a of
              (r, s2, evs) \<Rightarrow> (Inr r, s2, ev0 @ evs))
         else
           (let ev1 = progress_if e s1 progressToken 50 (''Processing '' @ toolName @ ''...'');
                ev2 = [Spawned toolName a]
            in case callPythonHandler e toolName a of
                 Inl err \<Rightarrow> (Inl err, s1, ev0 @ ev1 @ ev2)
               | Inr result \<Rightarrow>
                   (Inr result, untrack_token s1 progressToken,
                    ev0 @ ev1 @ ev2 @ progress_if e s1 progressToken 100 (''Completed '' @ toolName))))"

text \<open>The handler with its \<open>catch\<close> block, which reports the error, drops the token and rethrows.\<close>

definition callTool ::
    "env \<Rightarrow> server \<Rightarrow> string \<Rightarrow> args \<Rightarrow> (error + json) \<times> server \<times> event list" where
  "callTool e s toolName a =
     (case callTool_try e s toolName a of
        (Inr result, s', evs) \<Rightarrow> (Inr result, s', evs)
      | (Inl err, s', evs) \<Rightarrow>
          (case truthy_value (map_of a ''progress_token'') of
             None \<Rightarrow> (Inl err, s', evs)
           | Some t \<Rightarrow>
               (Inl err, untrack_token s' (Some t),
                evs @ sendProgressNotification e s' t (- 1)
                        (''Error in '' @ toolName @ '': '' @ error_message e err))))"

section \<open>Connection registry of \<open>enhanced_index.ts\<close>\<close>

text \<open>A number in a template string, in decimal.\<close>

fun string_of_nat :: "nat \<Rightarrow> string" where
  "string_of_nat n =
     (if n < 10 then [''0123456789'' ! n]
      else string_of_nat (n div 10) @ [''0123456789'' ! (n mod 10)])"

declare string_of_nat.simps [simp del]

text \<open>
  The \<open>GET /sse\<close> handler up to the point where the connection is in the registry:
  the session id is the query parameter, or \<open>session_<clock>\<close> when that is absent or empty,
  and the new transport is stored under it with \<open>Map.set\<close>.
\<close>

definition sse_session_id :: "env \<Rightarrow> string option \<Rightarrow> string" where
  "sse_session_id e query_sessionId =
     (case query_sessionId of
        None \<Rightarrow> ''session_'' @ string_of_nat (Date_now e)
      | Some q \<Rightarrow> if q \<noteq> [] then q else ''session_'' @ string_of_nat (Date_now e))"

text \<open>
  The handler: \<open>connect_throws\<close> is the error of \<open>server.connect\<close> or \<open>transport.start\<close>,
  if any; it is caught and answered with status 500, after the registration.
\<close>

definition get_sse ::
    "env \<Rightarrow> server \<Rightarrow> string option \<Rightarrow> transport \<Rightarrow> error option \<Rightarrow> (nat \<times> json) option \<times> server" where
  "get_sse e s query_sessionId t connect_throws =
     (let sessionId = sse_session_id e query_sessionId;
          s' = s\<lparr> sseTransports := AList.update sessionId t (sseTransports s) \<rparr>
      in case connect_throws of
           None \<Rightarrow> (None, s')
         | Some err \<Rightarrow>
             (Some (500, JObj [(''error'', JStr ''Failed to establish SSE connection'')]), s'))"

section \<open>Tool invocation of \<open>index.ts\<close>\<close>

text \<open>
  In \<open>index.ts\<close> the token comes from \<open>request.params._meta?.progressToken\<close> and counts
  only when it is a non-empty string; no \<open>send\<close> is wrapped in \<open>try\<close>/\<open>catch\<close>.
\<close>

definition index_token :: "json option \<Rightarrow> string option" where
  "index_token v =
     (case v of
        Some (JStr t) \<Rightarrow> if t \<noteq> [] then Some t else None
      | _ \<Rightarrow> None)"

definition index_progress_notification :: "string \<Rightarrow> real \<Rightarrow> string \<Rightarrow> notification" where
  "index_progress_notification token progress message =
     \<lparr> jsonrpc = ''2.0'', method_name = ''notifications/progress'',
       params = [(''progressToken'', JStr token), (''progress'', JNum progress),
                 (''total'', JNum 100), (''message'', JStr message)] \<rparr>"

definition index_sendProgressNotification ::
    "server \<Rightarrow> string \<Rightarrow> real \<Rightarrow> string \<Rightarrow> event list \<times> error option" where
  "index_sendProgressNotification s token progress message =
     send_each (sseTransports s) (index_progress_notification token progress message)"

definition index_progress_if ::
    "server \<Rightarrow> string option \<Rightarrow> real \<Rightarrow> string \<Rightarrow> event list \<times> error option" where
  "index_progress_if s progressToken progress message =
     (case progressToken of
        None \<Rightarrow> ([], None)
      | Some t \<Rightarrow> index_sendProgressNotification s t progress message)"

text \<open>The loop \<open>for (let i = 0; i <= steps; i++)\<close>, over the values of \<open>i\<close> still to come.\<close>

fun index_steps :: "server \<Rightarrow> string \<Rightarrow> nat \<Rightarrow> nat list \<Rightarrow> event list \<times> error option" where
  "index_steps s token steps [] = ([], None)"
| "index_steps s token steps (i # rest) =
     (case index_sendProgressNotification s token ((real i / real steps) * 100)
             (''Step '' @ string_of_nat i @ ''/'' @ string_of_nat steps) of
        (evs, Some err) \<Rightarrow> (evs, Some err)
      | (evs, None) \<Rightarrow>
          (case index_steps s token steps rest of (evs', r) \<Rightarrow> (evs @ evs', r)))"

definition streaming_update :: "string \<Rightarrow> args \<Rightarrow> notification" where
  "streaming_update toolName a =
     \<lparr> jsonrpc = ''2.0'', method_name = ''notifications/streaming_update'',
       params = [(''tool'', JStr toolName), (''progress'', JNum 100), (''data'', JObj a)] \<rparr>"

definition index_handleStreamingTool ::
    "server \<Rightarrow> string \<Rightarrow> args \<Rightarrow> string \<Rightarrow> (error + json) \<times> event list" where
  "index_handleStreamingTool s toolName a progressToken =
     (let steps = 10 in
      case index_steps s progressToken steps [0 ..< Suc steps] of
        (ev1, Some err) \<Rightarrow> (Inl err, ev1)
      | (ev1, None) \<Rightarrow>
          (case send_each (sseTransports s) (streaming_update toolName a) of
             (ev2, Some err) \<Rightarrow> (Inl err, ev1 @ ev2)
           | (ev2, None) \<Rightarrow>
               (Inr (JObj [(''streaming'', JBool True), (''completed'', JBool True),
                           (''tool'', JStr toolName)]),
                ev1 @ ev2)))"

definition index_callTool_try ::
    "env \<Rightarrow> server \<Rightarrow> string \<Rightarrow> args \<Rightarrow> json option \<Rightarrow> (error + json) \<times> server \<times> event list" where
  "index_callTool_try e s toolName a meta_progressToken =
     (let progressToken = index_token meta_progressToken;
          s1 = track_token s (map_option JStr progressToken) toolName
      in case index_progress_if s1 progressToken 0 (''Starting '' @ toolName @ ''...'') of
           (ev0, Some err) \<Rightarrow> (Inl err, s1, ev0)
         | (ev0, None) \<Rightarrow>
             (case (if toolName = ''create_streaming_workflow'' \<or> toolName = ''start_streaming_chat''
                    then progressToken else None) of
                Some t \<Rightarrow>
                  (case index_handleStreamingTool s1 toolName a t of
                     (r, evs) \<Rightarrow> (r, s1, ev0 @ evs))
              | None \<Rightarrow>
               (case index_progress_if s1 progressToken 50 (''Processing '' @ toolName @ ''...'') of
                  (ev1, Some err) \<Rightarrow> (Inl err, s1, ev0 @ ev1)
                | (ev1, None) \<Rightarrow>
                    (case callPythonHandler e toolName a of
                       Inl err \<Rightarrow> (Inl err, s1, ev0 @ ev1 @ [Spawned toolName a])
                     | Inr result \<Rightarrow>
                         (case index_progress_if s1 progressToken 100 (''Completed '' @ toolName) of
                            (ev3, Some err) \<Rightarrow> (Inl err, s1, ev0 @ ev1 @ [Spawned toolName a] @ ev3)
                          | (ev3, None) \<Rightarrow>
                              (Inr result, untrack_token s1 (map_option JStr progressToken),
                               ev0 @ ev1 @ [Spawned toolName a] @ ev3))))))"

text \<open>
  The handler of \<open>index.ts\<close> with its \<open>catch\<close> block. The error notification is itself a
  bare \<open>send\<close> loop: when it throws, that error leaves the handler and the token stays.
\<close>

definition index_callTool ::
    "env \<Rightarrow> server \<Rightarrow> string \<Rightarrow> args \<Rightarrow> json option \<Rightarrow> (error + json) \<times> server \<times> event list" where
  "index_callTool e s toolName a meta_progressToken =
     (case index_callTool_try e s toolName a meta_progressToken of
        (Inr result, s', evs) \<Rightarrow> (Inr result, s', evs)
      | (Inl err, s', evs) \<Rightarrow>
          (case index_token meta_progressToken of
             None \<Rightarrow> (Inl err, s', evs)
           | Some t \<Rightarrow>
               (case index_sendProgressNotification s' t (- 1)
                       (''Error in '' @ toolName @ '': '' @ error_message e err) of
                  (ev, Some err') \<Rightarrow> (Inl err', s', evs @ ev)
                | (ev, None) \<Rightarrow> (Inl err, untrack_token s' (Some (JStr t)), evs @ ev))))"

section \<open>Readings of an outcome\<close>

text \<open>The three components of a handler's outcome.\<close>

definition returned :: "'r \<times> server \<times> event list \<Rightarrow> 'r" where
  "returned out = fst out"

definition state_after :: "'r \<times> server \<times> event list \<Rightarrow> server" where
  "state_after out = fst (snd out)"

definition events :: "'r \<times> server \<times> event list \<Rightarrow> event list" where
  "events out = snd (snd out)"

text \<open>Readings of a trace: the backend calls made, and the \<open>progress\<close> field of a message.\<close>

fun spawned_calls :: "event list \<Rightarrow> (string \<times> args) list" where
  "spawned_calls [] = []"
| "spawned_calls (Spawned toolName a # evs) = (toolName, a) # spawned_calls evs"
| "spawned_calls (ev # evs) = spawned_calls evs"

fun progress_of :: "event \<Rightarrow> json option" where
  "progress_of (Delivered sid n) = map_of (params n) ''progress''"
| "progress_of (Rejected sid n err) = map_of (params n) ''progress''"
| "progress_of (Spawned toolName a) = None"

fun received :: "string \<Rightarrow> event list \<Rightarrow> notification list" where
  "received sid [] = []"
| "received sid (Delivered sid' n # evs) =
     (if sid' = sid then n # received sid evs else received sid evs)"
| "received sid (ev # evs) = received sid evs"

text \<open>A message accepted by every open connection, in registry order.\<close>

definition delivered_to_all :: "server \<Rightarrow> notification \<Rightarrow> event list" where
  "delivered_to_all s n = map (\<lambda>c. Delivered (fst c) n) (sseTransports s)"

text \<open>The method and the \<open>progress\<close> field of a message.\<close>

definition summary :: "notification \<Rightarrow> string \<times> json option" where
  "summary n = (method_name n, map_of (params n) ''progress'')"

text \<open>A backend call with the \<open>progress_token\<close> field taken out of its arguments.\<close>

definition without_token :: "string \<times> args \<Rightarrow> string \<times> args" where
  "without_token c = (fst c, AList.delete ''progress_token'' (snd c))"

section \<open>Concrete requests\<close>

text \<open>A parser, backends, connections and registries used to run the model on concrete requests.\<close>

definition parse_demo :: "string \<Rightarrow> json option" where
  "parse_demo s =
     (if s = ''{}'' then Some (JObj [])
      else if s = ''true'' then Some (JBool True)
      else None)"

definition env_of :: "(string \<Rightarrow> args \<Rightarrow> proc_result) \<Rightarrow> env" where
  "env_of p = \<lparr> spawn = p, JSON_parse = parse_demo, McpError_message = (\<lambda>c m. m),
      Date_now = 1700000000000,
      toISOString = ''2023-11-14T22:13:20.000Z'', uptime = 1, memoryUsage = JObj [] \<rparr>"

definition backend_ok :: "string \<Rightarrow> args \<Rightarrow> proc_result" where
  "backend_ok toolName a = Closed (Some 0) ''{}'' []"

definition backend_fails :: "string \<Rightarrow> args \<Rightarrow> proc_result" where
  "backend_fails toolName a = Closed (Some 2) [] ''agent not found''"

definition open_transport :: transport where
  "open_transport = \<lparr> send_throws = None \<rparr>"

definition closed_transport :: transport where
  "closed_transport = \<lparr> send_throws = Some (JsError ''Not connected'') \<rparr>"

definition server_with :: "(string \<times> transport) list \<Rightarrow> (json \<times> string) list \<Rightarrow> server" where
  "server_with conns tokens =
     \<lparr> sseTransports = conns, subscribers = [''autogen://agents/list''],
       progressTokens = tokens, lastResourceUpdate = 0 \<rparr>"

section \<open>Results\<close>

lemmas model_defs =
  callTool_def callTool_try_def handleStreamingTool_def handleResourceBroadcast_def
  notifyResourceUpdate_def getResourceData_def sendProgressNotification_def progress_if_def
  try_send_def track_token_def untrack_token_def truthy_value_def callPythonHandler_def
  returned_def state_after_def events_def env_of_def parse_demo_def backend_ok_def
  backend_fails_def open_transport_def closed_transport_def server_with_def

subsection \<open>What the handlers send\<close>

lemma progress_of_try_send: "progress_of (try_send c n) = map_of (params n) ''progress''"
  by (simp add: try_send_def split: option.split)

lemma send_each_progress:
  "ev \<in> set (fst (send_each cs n)) \<Longrightarrow> progress_of ev = map_of (params n) ''progress''"
  by (induction cs arbitrary: ev) (auto split: option.splits prod.splits)

lemma sendProgressNotification_progress:
  "ev \<in> set (sendProgressNotification e s t p m) \<Longrightarrow> progress_of ev = Some (JNum p)"
  by (auto simp: sendProgressNotification_def progress_of_try_send progress_notification_def)

lemma progress_if_progress:
  "ev \<in> set (progress_if e s tok p m) \<Longrightarrow> progress_of ev = Some (JNum p)"
  by (auto simp: progress_if_def sendProgressNotification_progress split: option.splits)

lemma getResourceData_progress:
  "ev \<in> set (fst (getResourceData e s u)) \<Longrightarrow> progress_of ev = None"
  by (auto simp: getResourceData_def split: if_splits)

lemma notifyResourceUpdate_progress:
  "ev \<in> set (notifyResourceUpdate e s u d) \<Longrightarrow> progress_of ev = None"
  by (auto simp: notifyResourceUpdate_def progress_of_try_send resource_notification_def
        getResourceData_def
      split: option.splits json.splits if_splits prod.splits)

lemma send_each_progress':
  "send_each cs n = (evs, r) \<Longrightarrow> ev \<in> set evs \<Longrightarrow> progress_of ev = map_of (params n) ''progress''"
  using send_each_progress[of ev cs n] by simp

lemma handleStreamingTool_progress:
  "handleStreamingTool e s tn a tok = (r, evs) \<Longrightarrow> ev \<in> set evs
     \<Longrightarrow> progress_of ev \<noteq> Some (JNum (- 1))"
  by (auto simp: handleStreamingTool_def Let_def streaming_notification_def
      split: sum.splits prod.splits option.splits if_splits
      dest!: progress_if_progress send_each_progress')

lemma handleResourceBroadcast_progress:
  "handleResourceBroadcast e s a = (r, s', evs) \<Longrightarrow> ev \<in> set evs \<Longrightarrow> progress_of ev = None"
  by (auto simp: handleResourceBroadcast_def Let_def dest: notifyResourceUpdate_progress)

lemma callTool_try_progress:
  "ev \<in> set (events (callTool_try e s tn a)) \<Longrightarrow> progress_of ev \<noteq> Some (JNum (- 1))"
  by (auto simp: callTool_try_def events_def Let_def
      split: sum.splits prod.splits if_splits
      dest: progress_if_progress handleStreamingTool_progress handleResourceBroadcast_progress)

lemma callTool_try_transports:
  "sseTransports (state_after (callTool_try e s tn a)) = sseTransports s"
  by (auto simp: callTool_try_def state_after_def Let_def handleResourceBroadcast_def
        track_token_def untrack_token_def
      split: sum.splits prod.splits option.splits)

lemma sendProgressNotification_transports:
  "sseTransports s' = sseTransports s
     \<Longrightarrow> sendProgressNotification e s' = sendProgressNotification e s"
  by (rule ext)+ (simp add: sendProgressNotification_def)

lemma filter_sendProgressNotification:
  "filter (\<lambda>ev. progress_of ev = Some (JNum p)) (sendProgressNotification e s t p m)
     = sendProgressNotification e s t p m"
  by (auto simp: filter_id_conv dest: sendProgressNotification_progress)

lemma callTool_try_subscribers:
  "subscribers (state_after (callTool_try e s tn a)) = subscribers s"
  by (auto simp: callTool_try_def state_after_def Let_def handleResourceBroadcast_def
        track_token_def untrack_token_def
      split: sum.splits prod.splits option.splits)

lemma callTool_try_other_tokens:
  "truthy_value (map_of a ''progress_token'') \<noteq> Some k
     \<Longrightarrow> map_of (progressTokens (state_after (callTool_try e s tn a))) k
         = map_of (progressTokens s) k"
  by (auto simp: callTool_try_def state_after_def Let_def handleResourceBroadcast_def
        track_token_def untrack_token_def AList.update_conv' AList.delete_conv'
      split: sum.splits prod.splits option.splits)

lemma track_token_transports [simp]:
  "sseTransports (track_token s tok tn) = sseTransports s"
  by (simp add: track_token_def split: option.splits)

lemma try_send_open:
  "send_throws (snd c) = None \<Longrightarrow> try_send c n = Delivered (fst c) n"
  by (simp add: try_send_def)

lemma send_each_open:
  "\<forall>c \<in> set cs. send_throws (snd c) = None
     \<Longrightarrow> send_each cs n = (map (\<lambda>c. Delivered (fst c) n) cs, None)"
  by (induction cs) auto

lemma sendProgressNotification_open:
  "\<forall>c \<in> set (sseTransports s). send_throws (snd c) = None
     \<Longrightarrow> sendProgressNotification e s t p m = delivered_to_all s (progress_notification e t p m)"
  by (simp add: sendProgressNotification_def delivered_to_all_def try_send_open)

lemma index_sendProgressNotification_open:
  "\<forall>c \<in> set (sseTransports s). send_throws (snd c) = None
     \<Longrightarrow> index_sendProgressNotification s t p m
         = (delivered_to_all s (index_progress_notification t p m), None)"
  by (simp add: index_sendProgressNotification_def delivered_to_all_def send_each_open)

lemma index_steps_open:
  "\<forall>c \<in> set (sseTransports s). send_throws (snd c) = None
     \<Longrightarrow> index_steps s t steps is
         = (concat (map (\<lambda>i. delivered_to_all s
                (index_progress_notification t ((real i / real steps) * 100)
                   (''Step '' @ string_of_nat i @ ''/'' @ string_of_nat steps))) is), None)"
  by (induction "is") (simp_all add: index_sendProgressNotification_open)

lemma delivered_to_all_track [simp]:
  "delivered_to_all (track_token s tok tn) n = delivered_to_all s n"
  by (simp add: delivered_to_all_def)

lemma delivered_to_all_update [simp]:
  "delivered_to_all (s\<lparr> progressTokens := p \<rparr>) n = delivered_to_all s n"
  by (simp add: delivered_to_all_def)


lemmas index_defs =
  index_callTool_def index_callTool_try_def index_handleStreamingTool_def index_token_def
  index_progress_if_def index_sendProgressNotification_def

lemma steps_range: "[0 ..< 11] = [0, 1, 2, 3, 4, 5, 6, 7, 8, 9, 10 :: nat]"
  by (simp add: upt_rec)

lemma send_each_error: "snd (send_each cs n) = snd (send_each cs n')"
  by (induction cs) (auto split: option.splits prod.splits)


lemma track_token_subscribers [simp]:
  "subscribers (track_token s tok tn) = subscribers s"
  by (simp add: track_token_def split: option.splits)

lemma handleStreamingTool_returned:
  assumes "sseTransports s' = sseTransports s"
      and "spawn e tn a' = spawn e tn a"
      and "map_of a' ''streaming'' = map_of a ''streaming''"
  shows "fst (handleStreamingTool e s' tn a' tok') = fst (handleStreamingTool e s tn a tok)"
proof (cases "callPythonHandler e tn a")
  case (Inl err)
  then have "callPythonHandler e tn a' = Inl err"
    by (simp add: callPythonHandler_def assms(2))
  with Inl show ?thesis
    by (simp add: handleStreamingTool_def Let_def)
next
  case (Inr result)
  then have cp: "callPythonHandler e tn a' = Inr result"
    by (simp add: callPythonHandler_def assms(2))
  obtain x r where one: "send_each (sseTransports s) (streaming_notification tok result) = (x, r)"
    by force
  obtain x' where two: "send_each (sseTransports s) (streaming_notification tok' result) = (x', r)"
    using send_each_error[of "sseTransports s" "streaming_notification tok' result"
        "streaming_notification tok result"] one
    by (cases "send_each (sseTransports s) (streaming_notification tok' result)") simp
  show ?thesis
    by (cases r) (simp_all add: handleStreamingTool_def Let_def Inr cp assms(1,3) one two)
qed

lemma callTool_returned:
  "returned (callTool e s tn a) = returned (callTool_try e s tn a)"
  by (auto simp: callTool_def returned_def split: prod.splits sum.splits option.splits)

lemma callTool_try_returned:
  assumes "sseTransports s' = sseTransports s"
      and "subscribers s' = subscribers s"
      and "spawn e tn a' = spawn e tn a"
      and "\<forall>k. k \<noteq> ''progress_token'' \<longrightarrow> map_of a' k = map_of a k"
  shows "returned (callTool_try e s' tn a') = returned (callTool_try e s tn a)"
proof -
  have str: "fst (handleStreamingTool e (track_token s' tok' tn) tn a' tok')
        = fst (handleStreamingTool e (track_token s tok tn) tn a tok)" for tok tok'
    by (rule handleStreamingTool_returned) (simp_all add: assms)
  have cp: "callPythonHandler e tn a' = callPythonHandler e tn a"
    by (simp add: callPythonHandler_def assms(3))
  have flds: "map_of a' ''uri'' = map_of a ''uri''"
      "map_of a' ''change_type'' = map_of a ''change_type''"
    using assms(4) by simp_all
  show ?thesis
  proof (cases "tn = ''create_streaming_workflow'' \<or> tn = ''start_streaming_chat''")
    case True
    then show ?thesis
      using str[of "truthy_value (map_of a' ''progress_token'')"
                   "truthy_value (map_of a ''progress_token'')"]
      by (auto simp: callTool_try_def returned_def Let_def split: prod.splits)
  next
    case False
    then show ?thesis
      by (simp add: callTool_try_def returned_def Let_def cp flds assms(2)
            handleResourceBroadcast_def split: sum.splits)
  qed
qed

lemma spawned_calls_append [simp]:
  "spawned_calls (xs @ ys) = spawned_calls xs @ spawned_calls ys"
  by (induction xs rule: spawned_calls.induct) simp_all

lemma spawned_calls_try_sends [simp]:
  "spawned_calls (map (\<lambda>c. try_send c n) cs) = []"
  by (induction cs) (simp_all add: try_send_def split: option.splits)

lemma spawned_calls_send_each:
  "send_each cs n = (evs, r) \<Longrightarrow> spawned_calls evs = []"
  by (induction cs arbitrary: evs r) (auto split: option.splits prod.splits)

lemma spawned_calls_progress_if [simp]:
  "spawned_calls (progress_if e s tok p m) = []"
  by (simp add: progress_if_def sendProgressNotification_def split: option.splits)

lemma spawned_calls_sendProgressNotification [simp]:
  "spawned_calls (sendProgressNotification e s t p m) = []"
  by (simp add: sendProgressNotification_def)

lemma spawned_calls_notify:
  assumes "sseTransports s' = sseTransports s" and "subscribers s' = subscribers s"
  shows "spawned_calls (notifyResourceUpdate e s' u d) = spawned_calls (notifyResourceUpdate e s u d)"
proof -
  have "spawned_calls (concat (map (\<lambda>c.
              (case truthy_value d of
                 Some v \<Rightarrow> [try_send c (resource_notification e x v)]
               | None \<Rightarrow> (case getResourceData e s' x of
                            (evs, v) \<Rightarrow> evs @ [try_send c (resource_notification e x v)]))) cs))
      = spawned_calls (concat (map (\<lambda>c.
              (case truthy_value d of
                 Some v \<Rightarrow> [try_send c (resource_notification e x v)]
               | None \<Rightarrow> (case getResourceData e s x of
                            (evs, v) \<Rightarrow> evs @ [try_send c (resource_notification e x v)]))) cs))"
    for x cs
    by (induction cs)
       (auto simp: getResourceData_def try_send_def split: option.splits)
  then show ?thesis
    by (simp add: notifyResourceUpdate_def assms split: option.splits json.splits)
qed

lemma spawned_calls_handleStreamingTool:
  "spawned_calls (snd (handleStreamingTool e s tn a tok)) = [(tn, a)]"
  by (auto simp: handleStreamingTool_def Let_def dest: spawned_calls_send_each
      split: sum.splits prod.splits option.splits)

lemma spawned_calls_callTool_try:
  "spawned_calls (events (callTool_try e s tn a))
     = (if tn = ''create_streaming_workflow'' \<or> tn = ''start_streaming_chat'' then [(tn, a)]
        else if tn = ''broadcast_resource_update''
          then spawned_calls (notifyResourceUpdate e s (map_of a ''uri'') (map_of a ''data''))
        else [(tn, a)])"
proof -
  have str: "spawned_calls (snd (handleStreamingTool e s' tn a tok)) = [(tn, a)]" for s' tok
    by (rule spawned_calls_handleStreamingTool)
  have ntf: "spawned_calls (notifyResourceUpdate e (track_token s tok tn') u d)
      = spawned_calls (notifyResourceUpdate e s u d)" for tok u d tn'
    by (rule spawned_calls_notify) simp_all
  show ?thesis
  proof (cases "tn = ''create_streaming_workflow'' \<or> tn = ''start_streaming_chat''")
    case True
    then show ?thesis
      using str[of "track_token s (truthy_value (map_of a ''progress_token'')) tn"
                   "truthy_value (map_of a ''progress_token'')"]
      by (auto simp: callTool_try_def events_def Let_def split: prod.splits)
  next
    case False
    show ?thesis
    proof (cases "tn = ''broadcast_resource_update''")
      case True
      then show ?thesis
        by (simp add: callTool_try_def events_def Let_def handleResourceBroadcast_def ntf)
    next
      case other: False
      with False show ?thesis
        by (simp add: callTool_try_def events_def Let_def split: sum.splits)
    qed
  qed
qed

lemma spawned_calls_callTool:
  "spawned_calls (events (callTool e s tn a)) = spawned_calls (events (callTool_try e s tn a))"
  by (auto simp: callTool_def events_def split: prod.splits sum.splits option.splits)


lemma map_of_without_token:
  "k \<noteq> ''progress_token'' \<Longrightarrow> map_of (AList.delete ''progress_token'' a) k = map_of a k"
  by (simp add: AList.delete_conv')

lemma spawned_calls_delivered [simp]:
  "spawned_calls (map (\<lambda>c. Delivered (fst c) n) cs) = []"
  by (induction cs) simp_all

lemma index_progress_if_open:
  "\<forall>c \<in> set (sseTransports s). send_throws (snd c) = None
     \<Longrightarrow> index_progress_if s tok p m
         = ((case tok of None \<Rightarrow> []
             | Some t \<Rightarrow> delivered_to_all s (index_progress_notification t p m)), None)"
  by (cases tok)
     (simp_all add: index_progress_if_def index_sendProgressNotification_open)

lemma spawned_calls_delivered_to_all [simp]:
  "spawned_calls (delivered_to_all s n) = []"
  by (simp add: delivered_to_all_def)

lemma index_callTool_default:
  assumes "toolName \<noteq> ''create_streaming_workflow''" and "toolName \<noteq> ''start_streaming_chat''"
      and "\<forall>c \<in> set (sseTransports s). send_throws (snd c) = None"
  shows "returned (index_callTool e s toolName a tok) = callPythonHandler e toolName a
       \<and> spawned_calls (events (index_callTool e s toolName a tok)) = [(toolName, a)]"
proof -
  let ?t = "index_token tok"
  let ?s1 = "track_token s (map_option JStr ?t) toolName"
  have op: "\<forall>c \<in> set (sseTransports ?s1). send_throws (snd c) = None"
    using assms(3) by simp
  note pr = index_progress_if_open[OF op]
  have nostream: "(if toolName = ''create_streaming_workflow'' \<or> toolName = ''start_streaming_chat''
        then ?t else None) = None"
    using assms(1,2) by simp
  show ?thesis
  proof (cases "callPythonHandler e toolName a")
    case (Inr result)
    then show ?thesis
      by (simp add: index_callTool_def index_callTool_try_def Let_def pr nostream
          returned_def events_def split: option.splits)
  next
    case (Inl err)
    then obtain evs where tr0: "index_callTool_try e s toolName a tok = (Inl err, ?s1, evs)"
        and sp: "spawned_calls evs = [(toolName, a)]"
      by (simp add: index_callTool_try_def Let_def pr nostream split: option.splits)
    show ?thesis
      using op sp
      by (simp add: index_callTool_def tr0 Inl returned_def events_def
          index_sendProgressNotification_open split: option.splits)
  qed
qed

lemma callTool_try_own_token:
  "truthy_value (map_of a ''progress_token'') = Some t
     \<Longrightarrow> map_of (progressTokens (state_after (callTool_try e s tn a))) t = None
       \<or> map_of (progressTokens (state_after (callTool_try e s tn a))) t = Some tn"
  by (auto simp: callTool_try_def state_after_def Let_def handleResourceBroadcast_def
        track_token_def untrack_token_def AList.update_conv' AList.delete_conv'
      split: sum.splits prod.splits)

subsection \<open>The guarded broadcasts\<close>

text \<open>
  \<open>sendProgressNotification\<close> and \<open>notifyResourceUpdate\<close> of \<open>enhanced_index.ts\<close>
  reach every connection that accepts the message, whatever the other connections do.
\<close>

lemma sendProgressNotification_reaches:
  "c \<in> set (sseTransports s) \<Longrightarrow> send_throws (snd c) = None
     \<Longrightarrow> Delivered (fst c) (progress_notification e t p m)
           \<in> set (sendProgressNotification e s t p m)"
  by (force simp: sendProgressNotification_def try_send_def)

lemma notifyResourceUpdate_reaches:
  "c \<in> set (sseTransports s) \<Longrightarrow> send_throws (snd c) = None
     \<Longrightarrow> u \<in> set (subscribers s) \<Longrightarrow> truthy_value d = Some v
     \<Longrightarrow> Delivered (fst c) (resource_notification e u v)
           \<in> set (notifyResourceUpdate e s (Some (JStr u)) d)"
  by (force simp: notifyResourceUpdate_def try_send_def)

text \<open>
  The broadcasts of \<open>index.ts\<close> are bare loops: with a first connection that throws, a
  default tool called with a token fails before the backend is started, the second
  connection is sent nothing, and the token stays in the tracker.
\<close>

lemma index_progress_broadcast_aborts:
  "index_callTool (env_of backend_ok)
       (server_with [(''a'', closed_transport), (''b'', open_transport)] [])
       ''execute_workflow'' [] (Some (JStr ''t1''))
     = (Inl (JsError ''Not connected''),
        server_with [(''a'', closed_transport), (''b'', open_transport)]
          [(JStr ''t1'', ''execute_workflow'')],
        [Rejected ''a'' (index_progress_notification ''t1'' 0 ''Starting execute_workflow...'')
           (JsError ''Not connected''),
         Rejected ''a''
           (index_progress_notification ''t1'' (- 1) ''Error in execute_workflow: Not connected'')
           (JsError ''Not connected'')])"
  by (simp add: model_defs index_defs)

subsection \<open>Claims\<close>

text \<open>
  C4. A backend call whose process closes with a non-zero status (or on a signal) fails with
  an \<open>McpError\<close> whose text is the captured stderr text (a fixed text when stderr is
  empty), so the stderr text is contained in it; a process that closes with status zero and
  a stdout that does not parse fails with the invalid-JSON error; and with a stdout that
  parses, the parsed value is returned.
\<close>

theorem callPythonHandler_outcomes:
  "(spawn e toolName a = Closed code out err \<and> code \<noteq> Some 0 \<longrightarrow>
      (\<exists>m. callPythonHandler e toolName a = Inl (McpError InternalError m)
           \<and> (err \<noteq> [] \<longrightarrow> m = err) \<and> sublist err m))
   \<and> (spawn e toolName a = Closed (Some 0) out err \<and> JSON_parse e out = None \<longrightarrow>
        callPythonHandler e toolName a
          = Inl (McpError InternalError ''Invalid JSON response from Python''))
   \<and> (spawn e toolName a = Closed (Some 0) out err \<and> JSON_parse e out = Some v \<longrightarrow>
        callPythonHandler e toolName a = Inr v)"
  by (auto simp: callPythonHandler_def)

theorem callPythonHandler_outcomes_witness:
  "callPythonHandler (env_of (\<lambda>t a. Closed (Some 2) [] ''agent not found'')) ''execute_workflow'' []
      = Inl (McpError InternalError ''agent not found'')
   \<and> callPythonHandler (env_of (\<lambda>t a. Closed (Some 0) ''not json'' [])) ''execute_workflow'' []
      = Inl (McpError InternalError ''Invalid JSON response from Python'')
   \<and> callPythonHandler (env_of (\<lambda>t a. Closed (Some 0) ''{}'' [])) ''execute_workflow'' []
      = Inr (JObj [])"
  using callPythonHandler_outcomes
          [of "env_of (\<lambda>t a. Closed (Some 2) [] ''agent not found'')" "''execute_workflow''" "[]"
              "Some 2" "[]" "''agent not found''"]
        callPythonHandler_outcomes
          [of "env_of (\<lambda>t a. Closed (Some 0) ''not json'' [])" "''execute_workflow''" "[]"
              _ "''not json''" "[]"]
        callPythonHandler_outcomes
          [of "env_of (\<lambda>t a. Closed (Some 0) ''{}'' [])" "''execute_workflow''" "[]"
              _ "''{}''" "[]" "JObj []"]
  by (simp add: env_of_def parse_demo_def)

text \<open>
  C1. The token of a streaming call stays in the progress tracker after the call has returned
  and its last notification (progress 100, "Streaming completed") has been delivered; so does
  the token of a broadcast-only call.
\<close>

theorem streaming_call_keeps_token:
  "returned (callTool (env_of backend_ok) (server_with [(''s1'', open_transport)] [])
       ''create_streaming_workflow'' [(''progress_token'', JStr ''t2'')]) = Inr (JObj [])
   \<and> last (events (callTool (env_of backend_ok) (server_with [(''s1'', open_transport)] [])
       ''create_streaming_workflow'' [(''progress_token'', JStr ''t2'')]))
       = Delivered ''s1'' (progress_notification (env_of backend_ok) (JStr ''t2'') 100 ''Streaming completed'')
   \<and> progressTokens (state_after (callTool (env_of backend_ok) (server_with [(''s1'', open_transport)] [])
       ''create_streaming_workflow'' [(''progress_token'', JStr ''t2'')]))
       = [(JStr ''t2'', ''create_streaming_workflow'')]
   \<and> progressTokens (state_after (callTool (env_of backend_ok) (server_with [(''s1'', open_transport)] [])
       ''broadcast_resource_update'' [(''progress_token'', JStr ''t3'')]))
       = [(JStr ''t3'', ''broadcast_resource_update'')]"
  by (simp add: model_defs)

text \<open>
  C2. With two open connections of which the first one's \<open>send\<close> throws, the streaming
  broadcast of \<open>handleStreamingTool\<close> stops at the first connection: the second connection
  is sent nothing, and the tool call fails with the connection's error although the backend
  had succeeded.
\<close>

theorem streaming_broadcast_aborts:
  "callTool (env_of backend_ok)
       (server_with [(''a'', closed_transport), (''b'', open_transport)] [])
       ''create_streaming_workflow'' [(''streaming'', JBool True)]
     = (Inl (JsError ''Not connected''),
        server_with [(''a'', closed_transport), (''b'', open_transport)] [],
        [Spawned ''create_streaming_workflow'' [(''streaming'', JBool True)],
         Rejected ''a'' (streaming_notification None (JObj [])) (JsError ''Not connected'')])"
  by (simp add: model_defs)

text \<open>
  C3. When a call carries a progress token and its \<open>try\<close> block ends with an error, the
  handler rethrows that same error; the last thing it does before is one broadcast of a
  progress notification with progress -1 and message "Error in <tool>: <message>", attempted
  once at every open connection, and these are the only messages of the whole call with
  progress -1; afterwards the token is not in the progress tracker.
\<close>

theorem callTool_reports_error:
  assumes "truthy_value (map_of a ''progress_token'') = Some t"
      and "returned (callTool_try e s toolName a) = Inl err"
  shows "returned (callTool e s toolName a) = Inl err
       \<and> events (callTool e s toolName a)
           = events (callTool_try e s toolName a)
             @ sendProgressNotification e s t (- 1)
                 (''Error in '' @ toolName @ '': '' @ error_message e err)
       \<and> filter (\<lambda>ev. progress_of ev = Some (JNum (- 1))) (events (callTool e s toolName a))
           = sendProgressNotification e s t (- 1)
               (''Error in '' @ toolName @ '': '' @ error_message e err)
       \<and> map_of (progressTokens (state_after (callTool e s toolName a))) t = None"
proof -
  obtain s' evs where tr0: "callTool_try e s toolName a = (Inl err, s', evs)"
    using assms(2) by (cases "callTool_try e s toolName a") (simp add: returned_def)
  have tr: "sseTransports s' = sseTransports s"
    using callTool_try_transports[of e s toolName a] tr0 by (simp add: state_after_def)
  let ?b = "sendProgressNotification e s t (- 1) (''Error in '' @ toolName @ '': '' @ error_message e err)"
  note same = sendProgressNotification_transports[OF tr]
  have out: "callTool e s toolName a = (Inl err, untrack_token s' (Some t), evs @ ?b)"
    by (simp add: callTool_def tr0 assms(1) same)
  have none: "filter (\<lambda>ev. progress_of ev = Some (JNum (- 1))) evs = []"
    using callTool_try_progress[of _ e s toolName a] tr0
    by (auto simp: events_def filter_empty_conv)
  note all = filter_sendProgressNotification
  show ?thesis
    by (simp add: out tr0 returned_def events_def state_after_def none all untrack_token_def
        AList.delete_conv)
qed

theorem callTool_reports_error_witness:
  "returned (callTool (env_of backend_fails)
       (server_with [(''a'', closed_transport), (''b'', open_transport)] [])
       ''execute_workflow'' [(''progress_token'', JStr ''t1'')])
     = Inl (McpError InternalError ''agent not found'')
   \<and> filter (\<lambda>ev. progress_of ev = Some (JNum (- 1)))
       (events (callTool (env_of backend_fails)
          (server_with [(''a'', closed_transport), (''b'', open_transport)] [])
          ''execute_workflow'' [(''progress_token'', JStr ''t1'')]))
     = [Rejected ''a''
          (progress_notification (env_of backend_fails) (JStr ''t1'') (- 1)
             ''Error in execute_workflow: agent not found'')
          (JsError ''Not connected''),
        Delivered ''b''
          (progress_notification (env_of backend_fails) (JStr ''t1'') (- 1)
             ''Error in execute_workflow: agent not found'')]
   \<and> map_of (progressTokens (state_after (callTool (env_of backend_fails)
          (server_with [(''a'', closed_transport), (''b'', open_transport)] [])
          ''execute_workflow'' [(''progress_token'', JStr ''t1'')]))) (JStr ''t1'') = None"
  using callTool_reports_error
          [of "[(''progress_token'', JStr ''t1'')]" "JStr ''t1''" "env_of backend_fails"
              "server_with [(''a'', closed_transport), (''b'', open_transport)] []"
              "''execute_workflow''" "McpError InternalError ''agent not found''"]
  by (simp add: model_defs)

text \<open>
  C10. A tool call, whether it returns or throws, leaves the set of subscribed URIs as it found
  it, and leaves every progress-tracker entry other than the one of its own token as it found
  it; a call without a token leaves the progress tracker untouched.
\<close>

theorem callTool_frame:
  "subscribers (state_after (callTool e s toolName a)) = subscribers s
   \<and> (\<forall>k. truthy_value (map_of a ''progress_token'') \<noteq> Some k \<longrightarrow>
          map_of (progressTokens (state_after (callTool e s toolName a))) k
            = map_of (progressTokens s) k)
   \<and> (truthy_value (map_of a ''progress_token'') = None \<longrightarrow>
          progressTokens (state_after (callTool e s toolName a)) = progressTokens s)"
proof -
  obtain r s' evs where t: "callTool_try e s toolName a = (r, s', evs)"
    by (cases "callTool_try e s toolName a") auto
  have sub: "subscribers s' = subscribers s"
    using callTool_try_subscribers[of e s toolName a] by (simp add: t state_after_def)
  have oth: "truthy_value (map_of a ''progress_token'') \<noteq> Some k
        \<Longrightarrow> map_of (progressTokens s') k = map_of (progressTokens s) k" for k
    using callTool_try_other_tokens[of a k e s toolName] by (simp add: t state_after_def)
  have same: "truthy_value (map_of a ''progress_token'') = None \<Longrightarrow> progressTokens s' = progressTokens s"
    using t
    by (auto simp: callTool_try_def Let_def handleResourceBroadcast_def track_token_def
        untrack_token_def split: sum.splits prod.splits if_splits)
  show ?thesis
    using sub oth same
    by (auto simp: callTool_def t state_after_def untrack_token_def AList.delete_conv'
        split: sum.splits option.splits)
qed

theorem callTool_frame_witness:
  "subscribers (state_after (callTool (env_of backend_fails)
       (server_with [(''s1'', open_transport)] [(JStr ''other'', ''create_agent'')])
       ''execute_workflow'' [(''progress_token'', JStr ''t1'')])) = [''autogen://agents/list'']
   \<and> map_of (progressTokens (state_after (callTool (env_of backend_fails)
       (server_with [(''s1'', open_transport)] [(JStr ''other'', ''create_agent'')])
       ''execute_workflow'' [(''progress_token'', JStr ''t1'')]))) (JStr ''other'')
     = Some ''create_agent''
   \<and> progressTokens (state_after (callTool (env_of backend_ok)
       (server_with [(''s1'', open_transport)] [(JStr ''other'', ''create_agent'')])
       ''create_streaming_workflow'' [])) = [(JStr ''other'', ''create_agent'')]"
  using callTool_frame
          [of "env_of backend_fails"
              "server_with [(''s1'', open_transport)] [(JStr ''other'', ''create_agent'')]"
              "''execute_workflow''" "[(''progress_token'', JStr ''t1'')]"]
        callTool_frame
          [of "env_of backend_ok"
              "server_with [(''s1'', open_transport)] [(JStr ''other'', ''create_agent'')]"
              "''create_streaming_workflow''" "[]"]
  by (simp add: model_defs)

text \<open>
  C6 as stated. With token "t1" and one open connection, the messages that
  \<open>execute_workflow\<close> sends are not the three of the claim: the first two end in "...".
\<close>

theorem execute_workflow_messages_counterexample:
  "received ''s1'' (events (callTool (env_of backend_ok) (server_with [(''s1'', open_transport)] [])
       ''execute_workflow'' [(''progress_token'', JStr ''t1'')]))
     \<noteq> [progress_notification (env_of backend_ok) (JStr ''t1'') 0 ''Starting execute_workflow'',
         progress_notification (env_of backend_ok) (JStr ''t1'') 50 ''Processing execute_workflow'',
         progress_notification (env_of backend_ok) (JStr ''t1'') 100 ''Completed execute_workflow'']"
  by (simp add: model_defs progress_notification_def)

text \<open>
  C6, amended. A default tool called with a progress token, whose backend call succeeds,
  broadcasts progress 0 "Starting <tool>...", progress 50 "Processing <tool>...", calls the
  backend, broadcasts progress 100 "Completed <tool>", in this order and nothing else, returns
  the backend's result, and its token is not in the progress tracker afterwards.
\<close>

theorem default_tool_sequence:
  assumes "truthy_value (map_of a ''progress_token'') = Some t"
      and "toolName \<noteq> ''create_streaming_workflow''"
      and "toolName \<noteq> ''start_streaming_chat''"
      and "toolName \<noteq> ''broadcast_resource_update''"
      and "callPythonHandler e toolName a = Inr result"
  shows "returned (callTool e s toolName a) = Inr result
       \<and> events (callTool e s toolName a)
           = sendProgressNotification e s t 0 (''Starting '' @ toolName @ ''...'')
             @ sendProgressNotification e s t 50 (''Processing '' @ toolName @ ''...'')
             @ [Spawned toolName a]
             @ sendProgressNotification e s t 100 (''Completed '' @ toolName)
       \<and> map_of (progressTokens (state_after (callTool e s toolName a))) t = None"
  using assms
  by (simp add: callTool_def callTool_try_def Let_def progress_if_def returned_def events_def
      state_after_def untrack_token_def AList.delete_conv
      sendProgressNotification_transports[of "track_token s (Some t) toolName" s])

theorem default_tool_sequence_witness:
  "events (callTool (env_of backend_ok) (server_with [(''s1'', open_transport)] [])
       ''execute_workflow'' [(''progress_token'', JStr ''t1'')])
     = [Delivered ''s1'' (progress_notification (env_of backend_ok) (JStr ''t1'') 0
           ''Starting execute_workflow...''),
        Delivered ''s1'' (progress_notification (env_of backend_ok) (JStr ''t1'') 50
           ''Processing execute_workflow...''),
        Spawned ''execute_workflow'' [(''progress_token'', JStr ''t1'')],
        Delivered ''s1'' (progress_notification (env_of backend_ok) (JStr ''t1'') 100
           ''Completed execute_workflow'')]
   \<and> map_of (progressTokens (state_after (callTool (env_of backend_ok)
       (server_with [(''s1'', open_transport)] [])
       ''execute_workflow'' [(''progress_token'', JStr ''t1'')]))) (JStr ''t1'') = None"
  using default_tool_sequence
          [of "[(''progress_token'', JStr ''t1'')]" "JStr ''t1''" "''execute_workflow''"
              "env_of backend_ok" "JObj []" "server_with [(''s1'', open_transport)] []"]
  by (simp add: model_defs)

text \<open>
  C5 as stated. With token "t2", \<open>streaming: true\<close> and one open connection, the handler
  of \<open>enhanced_index.ts\<close> sends no \<open>streaming_update\<close> message at all, and the last
  message the handler of \<open>index.ts\<close> sends is not a progress notification.
\<close>

theorem streaming_scenario_counterexample:
  "''notifications/streaming_update''
      \<notin> method_name ` set (received ''s1'' (events (callTool (env_of backend_ok)
           (server_with [(''s1'', open_transport)] [])
           ''create_streaming_workflow''
           [(''progress_token'', JStr ''t2''), (''streaming'', JBool True)])))
   \<and> method_name (last (received ''s1'' (events (index_callTool (env_of backend_ok)
           (server_with [(''s1'', open_transport)] [])
           ''create_streaming_workflow''
       [(''progress_token'', JStr ''t2''), (''streaming'', JBool True)] (Some (JStr ''t2''))))))
      \<noteq> ''notifications/progress''"
  by (simp add: model_defs index_defs steps_range progress_notification_def streaming_notification_def
        index_progress_notification_def streaming_update_def del: upt_Suc)

text \<open>
  C5, amended. A streaming tool called with \<open>streaming\<close> set, a non-empty string token,
  open connections that all accept what they are sent and a backend call that succeeds:
  \<open>enhanced_index.ts\<close> broadcasts progress 0 "Starting <tool>...", progress 25
  "Initializing streaming...", calls the backend, broadcasts one \<open>notifications/progress\<close>
  message with progress 75 that carries the backend's result, then progress 100
  "Streaming completed", and returns the result. \<open>index.ts\<close> broadcasts progress 0, then
  the eleven steps "Step i/10" for i from 0 to 10 with progress (i/10)*100, which never
  decreases, then one \<open>notifications/streaming_update\<close> that carries the call's arguments,
  and returns its own summary without calling the backend.
\<close>

theorem streaming_tool_sequence:
  assumes "map_of a ''progress_token'' = Some (JStr t)" and "t \<noteq> []"
      and "toolName = ''create_streaming_workflow'' \<or> toolName = ''start_streaming_chat''"
      and "truthy_value (map_of a ''streaming'') \<noteq> None"
      and "\<forall>c \<in> set (sseTransports s). send_throws (snd c) = None"
      and "callPythonHandler e toolName a = Inr result"
  shows "returned (callTool e s toolName a) = Inr result
       \<and> events (callTool e s toolName a)
           = delivered_to_all s (progress_notification e (JStr t) 0 (''Starting '' @ toolName @ ''...''))
             @ delivered_to_all s (progress_notification e (JStr t) 25 ''Initializing streaming...'')
             @ [Spawned toolName a]
             @ delivered_to_all s (streaming_notification (Some (JStr t)) result)
             @ delivered_to_all s (progress_notification e (JStr t) 100 ''Streaming completed'')
       \<and> returned (index_callTool e s toolName a (Some (JStr t)))
           = Inr (JObj [(''streaming'', JBool True), (''completed'', JBool True),
                        (''tool'', JStr toolName)])
       \<and> events (index_callTool e s toolName a (Some (JStr t)))
           = delivered_to_all s (index_progress_notification t 0 (''Starting '' @ toolName @ ''...''))
             @ concat (map (\<lambda>i. delivered_to_all s
                   (index_progress_notification t ((real i / 10) * 100)
                      (''Step '' @ string_of_nat i @ ''/'' @ string_of_nat 10))) [0 ..< 11])
             @ delivered_to_all s (streaming_update toolName a)
       \<and> sorted (map (\<lambda>i. (real i / 10) * 100) [0 ..< 11])"
proof -
  have tok: "truthy_value (map_of a ''progress_token'') = Some (JStr t)"
    using assms(1,2) by (simp add: truthy_value_def)
  have tr: "\<forall>c \<in> set (sseTransports (track_token s' tk tn)). send_throws (snd c) = None"
    if "sseTransports s' = sseTransports s" for s' tk tn
    using assms(5) that by simp
  have enh: "callTool e s toolName a
      = (Inr result, track_token s (Some (JStr t)) toolName,
         delivered_to_all s (progress_notification e (JStr t) 0 (''Starting '' @ toolName @ ''...''))
             @ delivered_to_all s (progress_notification e (JStr t) 25 ''Initializing streaming...'')
             @ [Spawned toolName a]
             @ delivered_to_all s (streaming_notification (Some (JStr t)) result)
             @ delivered_to_all s (progress_notification e (JStr t) 100 ''Streaming completed''))"
    using assms(3,4,6) tr[of s]
    by (auto simp: callTool_def callTool_try_def handleStreamingTool_def Let_def tok
        progress_if_def sendProgressNotification_open send_each_open delivered_to_all_def)
  have itok: "index_token (Some (JStr t)) = Some t"
    using assms(2) by (simp add: index_token_def)
  have idx: "index_callTool e s toolName a (Some (JStr t))
      = (Inr (JObj [(''streaming'', JBool True), (''completed'', JBool True),
                    (''tool'', JStr toolName)]),
         track_token s (Some (JStr t)) toolName,
         delivered_to_all s (index_progress_notification t 0 (''Starting '' @ toolName @ ''...''))
             @ concat (map (\<lambda>i. delivered_to_all s
                   (index_progress_notification t ((real i / 10) * 100)
                      (''Step '' @ string_of_nat i @ ''/'' @ string_of_nat 10))) [0 ..< 11])
             @ delivered_to_all s (streaming_update toolName a))"
    using assms(3,5)
    by (auto simp: index_callTool_def index_callTool_try_def index_handleStreamingTool_def itok
        index_progress_if_def index_sendProgressNotification_open index_steps_open
        send_each_open delivered_to_all_def simp del: upt_Suc)
  have mono: "sorted (map (\<lambda>i. (real i / 10) * 100) [0 ..< 11])"
    by (auto simp: sorted_map intro!: sorted_wrt_mono_rel[OF _ sorted_upt])
  show ?thesis
    by (simp only: enh idx returned_def events_def fst_conv snd_conv mono simp_thms)
qed

theorem streaming_tool_sequence_witness:
  "map summary (received ''s1'' (events (callTool (env_of backend_ok)
       (server_with [(''s1'', open_transport)] [])
       ''create_streaming_workflow'' [(''progress_token'', JStr ''t2''), (''streaming'', JBool True)])))
     = [(''notifications/progress'', Some (JNum 0)), (''notifications/progress'', Some (JNum 25)),
        (''notifications/progress'', Some (JNum 75)), (''notifications/progress'', Some (JNum 100))]
   \<and> map method_name (received ''s1'' (events (index_callTool (env_of backend_ok)
       (server_with [(''s1'', open_transport)] [])
       ''create_streaming_workflow''
       [(''progress_token'', JStr ''t2''), (''streaming'', JBool True)] (Some (JStr ''t2'')))))
     = [''notifications/progress'',
        ''notifications/progress'', ''notifications/progress'', ''notifications/progress'',
        ''notifications/progress'', ''notifications/progress'', ''notifications/progress'',
        ''notifications/progress'', ''notifications/progress'', ''notifications/progress'',
        ''notifications/progress'', ''notifications/progress'',
        ''notifications/streaming_update'']"
  using streaming_tool_sequence
          [of "[(''progress_token'', JStr ''t2''), (''streaming'', JBool True)]" "''t2''"
              "''create_streaming_workflow''" "server_with [(''s1'', open_transport)] []"
              "env_of backend_ok" "JObj []"]
  by (simp add: model_defs steps_range summary_def delivered_to_all_def
        progress_notification_def streaming_notification_def index_progress_notification_def
        streaming_update_def del: upt_Suc)

text \<open>
  C8 as stated. A connection that arrives with a session id already in the registry is
  registered without any error, and the registry then holds the new transport under that id.
\<close>

theorem duplicate_session_counterexample:
  "get_sse (env_of backend_ok) (server_with [(''abc'', closed_transport)] [])
       (Some ''abc'') open_transport None
     = (None, server_with [(''abc'', open_transport)] [])"
  by (simp add: get_sse_def sse_session_id_def server_with_def)

text \<open>
  C8, amended. Registering a connection under a client-supplied session id stores the new
  transport under that id whether or not the id was registered before: a connection
  registered earlier under the same id is replaced, the other sessions are as they were, an
  id already present keeps its place so that no id appears twice, and no error is raised by
  the registration.
\<close>

theorem get_sse_replaces:
  assumes "q \<noteq> []"
  shows "map_of (sseTransports (snd (get_sse e s (Some q) t c))) q = Some t
       \<and> (\<forall>k. k \<noteq> q \<longrightarrow>
              map_of (sseTransports (snd (get_sse e s (Some q) t c))) k
                = map_of (sseTransports s) k)
       \<and> (q \<in> fst ` set (sseTransports s) \<longrightarrow>
              map fst (sseTransports (snd (get_sse e s (Some q) t c)))
                = map fst (sseTransports s))
       \<and> (distinct (map fst (sseTransports s)) \<longrightarrow>
              distinct (map fst (sseTransports (snd (get_sse e s (Some q) t c)))))
       \<and> (c = None \<longrightarrow> fst (get_sse e s (Some q) t c) = None)"
  using assms
  by (auto simp: get_sse_def sse_session_id_def Let_def AList.update_conv' AList.update_keys
        AList.distinct_update split: option.splits)

theorem get_sse_replaces_witness:
  "map_of (sseTransports (snd (get_sse (env_of backend_ok)
       (server_with [(''abc'', closed_transport), (''xyz'', open_transport)] [])
       (Some ''abc'') open_transport None))) ''abc'' = Some open_transport
   \<and> map_of (sseTransports (snd (get_sse (env_of backend_ok)
       (server_with [(''abc'', closed_transport), (''xyz'', open_transport)] [])
       (Some ''abc'') open_transport None))) ''xyz'' = Some open_transport
   \<and> map fst (sseTransports (snd (get_sse (env_of backend_ok)
       (server_with [(''abc'', closed_transport), (''xyz'', open_transport)] [])
       (Some ''abc'') open_transport None))) = [''abc'', ''xyz'']
   \<and> fst (get_sse (env_of backend_ok)
       (server_with [(''abc'', closed_transport), (''xyz'', open_transport)] [])
       (Some ''abc'') open_transport None) = None"
  using get_sse_replaces
          [of "''abc''" "env_of backend_ok"
              "server_with [(''abc'', closed_transport), (''xyz'', open_transport)] []"
              open_transport None]
  by (simp add: server_with_def)

text \<open>
  C9 as stated. A call whose token is already tracked for another tool does not fail: it
  returns the backend's result, and the tracker maps the token to the new tool.
\<close>

theorem duplicate_token_counterexample:
  "callTool (env_of backend_ok) (server_with [] [(JStr ''t'', ''execute_workflow'')])
       ''create_streaming_workflow'' [(''progress_token'', JStr ''t'')]
     = (Inr (JObj []), server_with [] [(JStr ''t'', ''create_streaming_workflow'')],
        [Spawned ''create_streaming_workflow'' [(''progress_token'', JStr ''t'')]])"
  by (simp add: model_defs)

text \<open>
  C9, amended. A call that carries a progress token never fails because the token is already
  tracked: it returns what it would return from an empty tracker, and afterwards the token
  is either untracked or mapped to this call's tool name, whatever the tracker held for it
  before.
\<close>

theorem tracked_token_is_overwritten:
  assumes "truthy_value (map_of a ''progress_token'') = Some t"
  shows "returned (callTool e s toolName a)
           = returned (callTool e (s\<lparr> progressTokens := [] \<rparr>) toolName a)
       \<and> (map_of (progressTokens (state_after (callTool e s toolName a))) t = None
          \<or> map_of (progressTokens (state_after (callTool e s toolName a))) t = Some toolName)"
proof -
  have res: "returned (callTool_try e s toolName a)
      = returned (callTool_try e (s\<lparr> progressTokens := [] \<rparr>) toolName a)"
    by (rule callTool_try_returned) simp_all
  obtain r s' evs where t: "callTool_try e s toolName a = (r, s', evs)"
    by (cases "callTool_try e s toolName a") auto
  have own: "map_of (progressTokens s') t = None \<or> map_of (progressTokens s') t = Some toolName"
    using callTool_try_own_token[OF assms, of e s toolName] by (simp add: t state_after_def)
  have "map_of (progressTokens (state_after (callTool e s toolName a))) t = None
      \<or> map_of (progressTokens (state_after (callTool e s toolName a))) t = Some toolName"
    using own
    by (auto simp: callTool_def t assms state_after_def untrack_token_def AList.delete_conv'
        split: sum.splits)
  with res show ?thesis
    by (simp add: callTool_returned)
qed

theorem tracked_token_is_overwritten_witness:
  "returned (callTool (env_of backend_ok) (server_with [] [(JStr ''t'', ''execute_workflow'')])
       ''create_agent'' [(''progress_token'', JStr ''t'')]) = Inr (JObj [])
   \<and> map_of (progressTokens (state_after (callTool (env_of backend_ok)
       (server_with [] [(JStr ''t'', ''execute_workflow'')])
       ''create_agent'' [(''progress_token'', JStr ''t'')]))) (JStr ''t'') = None"
  using tracked_token_is_overwritten
          [of "[(''progress_token'', JStr ''t'')]" "JStr ''t''" "env_of backend_ok"
              "server_with [] [(JStr ''t'', ''execute_workflow'')]" "''create_agent''"]
  by (simp add: model_defs)

text \<open>
  C7 as stated. In \<open>index.ts\<close> the streaming tool called with a token returns its own
  summary and never calls the backend; called without a token it calls the backend and
  returns the backend's result.
\<close>

theorem token_gates_streaming_counterexample:
  "returned (index_callTool (env_of backend_ok) (server_with [] [])
       ''create_streaming_workflow'' [] (Some (JStr ''t1'')))
     \<noteq> returned (index_callTool (env_of backend_ok) (server_with [] [])
       ''create_streaming_workflow'' [] None)
   \<and> spawned_calls (events (index_callTool (env_of backend_ok) (server_with [] [])
       ''create_streaming_workflow'' [] (Some (JStr ''t1'')))) = []
   \<and> spawned_calls (events (index_callTool (env_of backend_ok) (server_with [] [])
       ''create_streaming_workflow'' [] None)) = [(''create_streaming_workflow'', [])]"
  by (simp add: model_defs index_defs steps_range del: upt_Suc)

text \<open>
  C7, amended. In \<open>enhanced_index.ts\<close>, for every tool and argument object, the call with
  the \<open>progress_token\<close> field and the call with that field removed start the same backend
  processes in the same order, with arguments that agree outside \<open>progress_token\<close>, and
  return the same result whenever the backend process behaves the same on the two argument
  objects. In \<open>index.ts\<close>, for every tool other than the two streaming tools and with
  open connections that all accept what they are sent, the call with a token and the call
  without one return the same result and make the same backend calls.
\<close>

theorem token_only_gates_progress:
  "(spawn e toolName (AList.delete ''progress_token'' a) = spawn e toolName a \<longrightarrow>
      returned (callTool e s toolName (AList.delete ''progress_token'' a))
        = returned (callTool e s toolName a))
   \<and> map without_token (spawned_calls (events (callTool e s toolName (AList.delete ''progress_token'' a))))
       = map without_token (spawned_calls (events (callTool e s toolName a)))
   \<and> (toolName \<noteq> ''create_streaming_workflow'' \<and> toolName \<noteq> ''start_streaming_chat''
        \<and> (\<forall>c \<in> set (sseTransports s). send_throws (snd c) = None) \<longrightarrow>
      returned (index_callTool e s toolName a tok) = returned (index_callTool e s toolName a None)
      \<and> spawned_calls (events (index_callTool e s toolName a tok))
          = spawned_calls (events (index_callTool e s toolName a None)))"
proof -
  have one: "returned (callTool e s toolName (AList.delete ''progress_token'' a))
        = returned (callTool e s toolName a)"
    if "spawn e toolName (AList.delete ''progress_token'' a) = spawn e toolName a"
    unfolding callTool_returned
    by (rule callTool_try_returned) (simp_all add: that map_of_without_token)
  have two: "map without_token (spawned_calls (events (callTool e s toolName (AList.delete ''progress_token'' a))))
       = map without_token (spawned_calls (events (callTool e s toolName a)))"
    by (simp add: spawned_calls_callTool spawned_calls_callTool_try map_of_without_token
        without_token_def AList.delete_idem)
  show ?thesis
    using one two index_callTool_default[of toolName s e a]
    by simp
qed

theorem token_only_gates_progress_witness:
  "returned (callTool (env_of backend_ok) (server_with [(''s1'', open_transport)] [])
       ''execute_workflow'' (AList.delete ''progress_token'' [(''progress_token'', JStr ''t1'')]))
     = returned (callTool (env_of backend_ok) (server_with [(''s1'', open_transport)] [])
       ''execute_workflow'' [(''progress_token'', JStr ''t1'')])
   \<and> returned (index_callTool (env_of backend_ok) (server_with [(''s1'', open_transport)] [])
       ''execute_workflow'' [(''progress_token'', JStr ''t1'')] (Some (JStr ''t1'')))
     = returned (index_callTool (env_of backend_ok) (server_with [(''s1'', open_transport)] [])
       ''execute_workflow'' [(''progress_token'', JStr ''t1'')] None)
   \<and> spawned_calls (events (index_callTool (env_of backend_ok)
       (server_with [(''s1'', open_transport)] [])
       ''execute_workflow'' [(''progress_token'', JStr ''t1'')] (Some (JStr ''t1''))))
     = spawned_calls (events (index_callTool (env_of backend_ok)
       (server_with [(''s1'', open_transport)] [])
       ''execute_workflow'' [(''progress_token'', JStr ''t1'')] None))"
  using token_only_gates_progress
          [of "env_of backend_ok" "''execute_workflow''" "[(''progress_token'', JStr ''t1'')]"
              "server_with [(''s1'', open_transport)] []" "Some (JStr ''t1'')"]
  by (simp add: env_of_def backend_ok_def server_with_def open_transport_def)

end
